theory Spec2Isabelle
  imports Complex_Main
begin

section \<open>Numbers\<close>

text \<open>
  The carousel script \<^verbatim>\<open>src/assets/js/main.js\<close> computes with JavaScript numbers. Positions,
  speeds and distortion factors are modelled as reals: every \<open>+\<close>, \<open>-\<close>, \<open>*\<close> of the source is
  the exact operation, with no rounding and no overflow, and the inputs delivered by the
  browser (\<open>deltaY\<close>, \<open>clientX\<close>, frame timestamps) are finite.

  The velocity chain of \<open>animate\<close> divides by \<open>deltaTime\<close>, which is zero when two frames carry
  the same timestamp and is not a number when a frame carries no timestamp. There the source
  continues with \<open>Infinity\<close> or \<open>NaN\<close>, so these quantities are values of \<open>jsnum\<close>.
\<close>

datatype jsnum = Fin real | PInf | NInf | NaN

text \<open>\<open>ToNumber\<close> of an argument that may be \<open>undefined\<close>.\<close>

fun js_of :: "real option \<Rightarrow> jsnum" where
  "js_of None = NaN"
| "js_of (Some r) = Fin r"

fun js_add :: "jsnum \<Rightarrow> jsnum \<Rightarrow> jsnum" where
  "js_add NaN _ = NaN"
| "js_add _ NaN = NaN"
| "js_add (Fin a) (Fin b) = Fin (a + b)"
| "js_add PInf NInf = NaN"
| "js_add NInf PInf = NaN"
| "js_add PInf _ = PInf"
| "js_add _ PInf = PInf"
| "js_add NInf _ = NInf"
| "js_add _ NInf = NInf"

fun js_neg :: "jsnum \<Rightarrow> jsnum" where
  "js_neg NaN = NaN"
| "js_neg (Fin a) = Fin (- a)"
| "js_neg PInf = NInf"
| "js_neg NInf = PInf"

definition js_sub :: "jsnum \<Rightarrow> jsnum \<Rightarrow> jsnum" where
  "js_sub a b = js_add a (js_neg b)"

text \<open>The sign of a value: \<open>None\<close> for \<open>NaN\<close>, otherwise \<open>-1\<close>, \<open>0\<close> or \<open>1\<close>.\<close>

fun js_sign :: "jsnum \<Rightarrow> int option" where
  "js_sign NaN = None"
| "js_sign (Fin a) = Some (if a < 0 then - 1 else if a = 0 then 0 else 1)"
| "js_sign PInf = Some 1"
| "js_sign NInf = Some (- 1)"

fun js_inf :: "int \<Rightarrow> jsnum" where
  "js_inf s = (if s < 0 then NInf else if s = 0 then NaN else PInf)"

fun js_mul :: "jsnum \<Rightarrow> jsnum \<Rightarrow> jsnum" where
  "js_mul (Fin a) (Fin b) = Fin (a * b)"
| "js_mul a b =
     (case (js_sign a, js_sign b) of
        (Some s, Some t) \<Rightarrow> js_inf (s * t)
      | _ \<Rightarrow> NaN)"

text \<open>
  Division. A zero divisor is read as \<open>+0\<close>: the divisors of the source are \<open>1000\<close>, the
  history length, \<open>peakVelocity + 0.001\<close>, and \<open>deltaTime\<close>, whose zero is the \<open>+0\<close> of
  \<open>(time - time) / 1000\<close>.
\<close>

fun js_div :: "jsnum \<Rightarrow> jsnum \<Rightarrow> jsnum" where
  "js_div NaN _ = NaN"
| "js_div _ NaN = NaN"
| "js_div (Fin a) (Fin b) =
     (if b \<noteq> 0 then Fin (a / b)
      else if a = 0 then NaN else if 0 < a then PInf else NInf)"
| "js_div (Fin a) _ = Fin 0"
| "js_div a (Fin b) =
     (case js_sign a of
        Some s \<Rightarrow> js_inf (s * (if b < 0 then - 1 else 1))
      | None \<Rightarrow> NaN)"
| "js_div _ _ = NaN"

text \<open>\<open>a < b\<close>; a comparison with \<open>NaN\<close> is false.\<close>

fun js_lt :: "jsnum \<Rightarrow> jsnum \<Rightarrow> bool" where
  "js_lt NaN _ = False"
| "js_lt _ NaN = False"
| "js_lt (Fin a) (Fin b) = (a < b)"
| "js_lt NInf NInf = False"
| "js_lt NInf _ = True"
| "js_lt _ NInf = False"
| "js_lt PInf _ = False"
| "js_lt _ PInf = True"

definition js_gt :: "jsnum \<Rightarrow> jsnum \<Rightarrow> bool" where
  "js_gt a b = js_lt b a"

text \<open>\<open>Math.min\<close> and \<open>Math.max\<close>: \<open>NaN\<close> if either argument is.\<close>

fun js_min :: "jsnum \<Rightarrow> jsnum \<Rightarrow> jsnum" where
  "js_min NaN _ = NaN"
| "js_min _ NaN = NaN"
| "js_min a b = (if js_lt b a then b else a)"

fun js_max :: "jsnum \<Rightarrow> jsnum \<Rightarrow> jsnum" where
  "js_max NaN _ = NaN"
| "js_max _ NaN = NaN"
| "js_max a b = (if js_lt a b then b else a)"

text \<open>
  Storing a \<open>jsnum\<close> into a variable that the model keeps as a real. The one place that does
  so, the \<open>Math.max\<close> in \<open>animate\<close>, only ever stores a finite value (lemma
  \<open>movementDistortion_finite\<close>); the other equations are never used.
\<close>

fun js_fin :: "jsnum \<Rightarrow> real" where
  "js_fin (Fin r) = r"
| "js_fin _ = 0"

text \<open>
  The remainder operator \<open>%\<close> on finite operands with a non-zero divisor: the quotient is
  truncated toward zero, so the result has the sign of the dividend.
\<close>

definition js_trunc :: "real \<Rightarrow> int" where
  "js_trunc x = (if 0 \<le> x then \<lfloor>x\<rfloor> else \<lceil>x\<rceil>)"

definition js_rem :: "real \<Rightarrow> real \<Rightarrow> real" where
  "js_rem a b = a - b * of_int (js_trunc (a / b))"

text \<open>\<open>Math.sign\<close> on a finite number is \<^const>\<open>sgn\<close>; \<open>Math.abs\<close> is \<^const>\<open>abs\<close>.\<close>

section \<open>Settings and constants\<close>

record settings_t =
  wheelSensitivity :: real
  touchSensitivity :: real
  momentumMultiplier :: real
  smoothing :: real
  slideLerp :: real
  distortionDecay :: real
  maxDistortion :: real
  distortionSensitivity :: real
  distortionSmoothing :: real

definition settings :: settings_t where
  "settings =
     \<lparr> wheelSensitivity = 0.01,
       touchSensitivity = 0.01,
       momentumMultiplier = 2,
       smoothing = 0.1,
       slideLerp = 0.075,
       distortionDecay = 0.95,
       maxDistortion = 2.5,
       distortionSensitivity = 0.15,
       distortionSmoothing = 0.075 \<rparr>"

definition slideWidth :: real where "slideWidth = 3.0"
definition slideHeight :: real where "slideHeight = 1.5"
definition gap :: real where "gap = 0.1"
definition slideCount :: nat where "slideCount = 10"
definition imagesCount :: nat where "imagesCount = 5"
definition totalWidth :: real where "totalWidth = real slideCount * (slideWidth + gap)"
definition slideUnit :: real where "slideUnit = slideWidth + gap"

section \<open>Slides\<close>

text \<open>
  A mesh as far as the script reads or writes it: \<open>position.x\<close>, \<open>userData.index\<close>,
  \<open>userData.originalVertices\<close> and the flat array \<open>geometry.attributes.position.array\<close>
  (three numbers per vertex). Material, texture and scale belong to the renderer and are
  left out, as are the vertex normals. The centring pass adds \<open>userData.targetX\<close> and
  \<open>userData.currentX\<close>.
\<close>

record mesh =
  position_x :: real
  userIndex :: nat
  originalVertices :: "real list"
  positionArray :: "real list"

record slide = mesh +
  targetX :: real
  currentX :: real

text \<open>
  \<open>createSlide\<close>. The vertex array \<open>geom\<close> is what the library's
  \<open>PlaneGeometry(slideWidth, slideHeight, 32, 16)\<close> returns.
\<close>

definition createSlide :: "real list \<Rightarrow> nat \<Rightarrow> mesh" where
  "createSlide geom index =
     \<lparr> position_x = real index * (slideWidth + gap),
       userIndex = index,
       originalVertices = geom,
       positionArray = geom \<rparr>"

text \<open>The body of the \<open>slides.forEach\<close> that follows the creation loop.\<close>

definition centreSlide :: "mesh \<Rightarrow> slide" where
  "centreSlide m =
     (let x = position_x m - totalWidth / 2
      in \<lparr> position_x = x,
           userIndex = userIndex m,
           originalVertices = originalVertices m,
           positionArray = positionArray m,
           targetX = x,
           currentX = x \<rparr>)"

definition initialSlides :: "real list \<Rightarrow> slide list" where
  "initialSlides geom = map centreSlide (map (createSlide geom) [0..<slideCount])"

section \<open>Mesh distortion\<close>

text \<open>The Z offset of the vertex whose undeformed local coordinates are \<open>(x, y)\<close>.\<close>

definition curveZ :: "settings_t \<Rightarrow> real \<Rightarrow> real \<Rightarrow> real \<Rightarrow> real \<Rightarrow> real" where
  "curveZ cfg worldPositionX distortionFactor x y =
     (let distortionRadius = 2.0;
          maxCurvature = maxDistortion cfg * distortionFactor;
          vertexWorldPosX = worldPositionX + x;
          distFromCenter = sqrt ((vertexWorldPosX - 0)\<^sup>2 + (y - 0)\<^sup>2);
          distortionStrength = max 0 (1 - distFromCenter / distortionRadius)
      in (sin (distortionStrength * pi / 2) powr 1.5) * maxCurvature)"

text \<open>
  One pass of the loop body: vertex \<open>i\<close> reads its \<open>x\<close> and \<open>y\<close> from the snapshot and
  \<open>setZ\<close> writes component \<open>3 i + 2\<close> of the position array.
\<close>

definition setVertexZ ::
  "settings_t \<Rightarrow> real list \<Rightarrow> real \<Rightarrow> real \<Rightarrow> nat \<Rightarrow> real list \<Rightarrow> real list" where
  "setVertexZ cfg orig worldPositionX distortionFactor i arr =
     (let x = orig ! (i * 3);
          y = orig ! (i * 3 + 1)
      in arr[i * 3 + 2 := curveZ cfg worldPositionX distortionFactor x y])"

definition updateCurve ::
  "settings_t \<Rightarrow> 'a mesh_scheme \<Rightarrow> real \<Rightarrow> real \<Rightarrow> 'a mesh_scheme" where
  "updateCurve cfg m worldPositionX distortionFactor =
     (let count = length (positionArray m) div 3
      in m\<lparr> positionArray :=
             fold (setVertexZ cfg (originalVertices m) worldPositionX distortionFactor)
               [0..<count] (positionArray m) \<rparr>)"

text \<open>
  A mesh is well formed when its snapshot is as long as its position array, as
  \<open>Float32Array.from\<close> makes it in \<open>createSlide\<close>; then every read of the loop is in range.
\<close>

definition wellFormed :: "'a mesh_scheme \<Rightarrow> bool" where
  "wellFormed m \<longleftrightarrow> length (originalVertices m) = length (positionArray m)"

section \<open>Carousel state\<close>

record carousel =
  slides :: "slide list"
  currentPosition :: real
  targetPosition :: real
  isScrolling :: bool
  autoScrollSpeed :: real
  lastTime :: "real option"
  touchStartX :: real
  touchLastX :: real
  prevPosition :: real
  currentDistortionFactor :: real
  targetDistortionFactor :: real
  peakVelocity :: jsnum
  velocityHistory :: "jsnum list"

text \<open>The module-level state once the slides are created and centred.\<close>

definition initial :: "real list \<Rightarrow> carousel" where
  "initial geom =
     \<lparr> slides = initialSlides geom,
       currentPosition = 0,
       targetPosition = 0,
       isScrolling = False,
       autoScrollSpeed = 0,
       lastTime = Some 0,
       touchStartX = 0,
       touchLastX = 0,
       prevPosition = 0,
       currentDistortionFactor = 0,
       targetDistortionFactor = 0,
       peakVelocity = Fin 0,
       velocityHistory = [Fin 0, Fin 0, Fin 0, Fin 0, Fin 0] \<rparr>"

section \<open>Input handlers\<close>

definition keydown :: "string \<Rightarrow> carousel \<Rightarrow> carousel" where
  "keydown key st =
     (if key = ''ArrowLeft'' then
        st\<lparr> targetPosition := targetPosition st + slideUnit,
            targetDistortionFactor := min 1.0 (targetDistortionFactor st + 0.3) \<rparr>
      else if key = ''ArrowRight'' then
        st\<lparr> targetPosition := targetPosition st - slideUnit,
            targetDistortionFactor := min 1.0 (targetDistortionFactor st + 0.3) \<rparr>
      else st)"

text \<open>
  The timers that the wheel and touchend handlers start are not part of the state; their
  callback is the event \<open>timerFired\<close> below, which may arrive at any later moment.
\<close>

definition wheel :: "settings_t \<Rightarrow> real \<Rightarrow> carousel \<Rightarrow> carousel" where
  "wheel cfg deltaY st =
     (let wheelStrength = \<bar>deltaY\<bar> * 0.001
      in st\<lparr> targetDistortionFactor := min 1.0 (targetDistortionFactor st + wheelStrength),
             targetPosition := targetPosition st - deltaY * wheelSensitivity cfg,
             isScrolling := True,
             autoScrollSpeed := min (\<bar>deltaY\<bar> * 0.0005) 0.05 * sgn deltaY \<rparr>)"

definition timerFired :: "carousel \<Rightarrow> carousel" where
  "timerFired st = st\<lparr> isScrolling := False \<rparr>"

definition touchstart :: "real \<Rightarrow> carousel \<Rightarrow> carousel" where
  "touchstart clientX st =
     st\<lparr> touchStartX := clientX, touchLastX := clientX, isScrolling := False \<rparr>"

definition touchmove :: "settings_t \<Rightarrow> real \<Rightarrow> carousel \<Rightarrow> carousel" where
  "touchmove cfg clientX st =
     (let touchX = clientX;
          deltaX = touchX - touchLastX st;
          touchStrength = \<bar>deltaX\<bar> * 0.02
      in st\<lparr> touchLastX := touchX,
             targetDistortionFactor := min 1.0 (targetDistortionFactor st - touchStrength),
             targetPosition := targetPosition st - deltaX * touchSensitivity cfg,
             isScrolling := True \<rparr>)"

definition touchend :: "settings_t \<Rightarrow> carousel \<Rightarrow> carousel" where
  "touchend cfg st =
     (let velocity = (touchLastX st - touchStartX st) * 0.005
      in if \<bar>velocity\<bar> > 0.5 then
           st\<lparr> autoScrollSpeed := - velocity * momentumMultiplier cfg * 0.05,
               targetDistortionFactor := min 1.0 (\<bar>velocity\<bar> * 3 * distortionSensitivity cfg),
               isScrolling := True \<rparr>
         else st)"

text \<open>The resize handler touches the camera and the renderer only.\<close>

definition resize :: "carousel \<Rightarrow> carousel" where
  "resize st = st"

section \<open>The animation frame\<close>

text \<open>Lines 245 to 254: momentum, while a gesture or its tail is active.\<close>

definition scrollStep :: "carousel \<Rightarrow> carousel" where
  "scrollStep st =
     (if isScrolling st then
        (let targetPosition' = targetPosition st + autoScrollSpeed st;
             speedBasedDecay = 0.97 - \<bar>autoScrollSpeed st\<bar> * 0.5;
             autoScrollSpeed' = autoScrollSpeed st * max 0.92 speedBasedDecay
         in st\<lparr> targetPosition := targetPosition',
                autoScrollSpeed := (if \<bar>autoScrollSpeed'\<bar> < 0.001 then 0 else autoScrollSpeed') \<rparr>)
      else st)"

text \<open>Lines 285 to 290: the wrapped position of slide \<open>i\<close>.\<close>

definition wrapBaseX :: "nat \<Rightarrow> real \<Rightarrow> real" where
  "wrapBaseX i curPos =
     (let baseX = real i * slideUnit - curPos;
          baseX = js_rem (js_rem baseX totalWidth + totalWidth) totalWidth
      in if baseX > totalWidth / 2 then baseX - totalWidth else baseX)"

text \<open>The body of the per-frame \<open>slides.forEach\<close>.\<close>

definition layoutSlide :: "settings_t \<Rightarrow> real \<Rightarrow> real \<Rightarrow> nat \<Rightarrow> slide \<Rightarrow> slide" where
  "layoutSlide cfg curPos distortion i sl =
     (let baseX = wrapBaseX i curPos;
          isWrapping = \<bar>baseX - targetX sl\<bar> > slideWidth * 2;
          snapped = (if isWrapping then baseX else currentX sl);
          sl = sl\<lparr> targetX := baseX, currentX := snapped + (baseX - snapped) * slideLerp cfg \<rparr>;
          wrapThreshold = totalWidth / 2 + slideWidth
      in if \<bar>currentX sl\<bar> < wrapThreshold * 1.5 then
           updateCurve cfg (sl\<lparr> position_x := currentX sl \<rparr>) (currentX sl) distortion
         else sl)"

text \<open>
  Lines 258 to 282: the distortion integrator, given the position before and after the
  smoothing step and the frame's \<open>deltaTime\<close>.
\<close>

definition distortionStep :: "settings_t \<Rightarrow> real \<Rightarrow> jsnum \<Rightarrow> carousel \<Rightarrow> carousel" where
  "distortionStep cfg prevPos deltaTime st =
     (let currentVelocity = js_div (Fin \<bar>currentPosition st - prevPos\<bar>) deltaTime;
          history = tl (velocityHistory st @ [currentVelocity]);
          avgVelocity = js_div (foldl js_add (Fin 0) history) (Fin (real (length history)));
          peak = (if js_gt avgVelocity (peakVelocity st) then avgVelocity else peakVelocity st);
          velocityRatio = js_div avgVelocity (js_add peak (Fin 0.001));
          isDecelerating = (js_lt velocityRatio (Fin 0.7) \<and> js_gt peak (Fin 0.5));
          movementDistortion = js_min (Fin 1.0) (js_mul currentVelocity (Fin 0.1));
          target1 =
            (if js_gt currentVelocity (Fin 0.05)
             then js_fin (js_max (Fin (targetDistortionFactor st)) movementDistortion)
             else targetDistortionFactor st);
          target2 =
            (if isDecelerating \<or> js_lt avgVelocity (Fin 0.2)
             then target1 * (if isDecelerating then distortionDecay cfg
                             else distortionDecay cfg * 0.9)
             else target1)
      in st\<lparr> velocityHistory := history,
             peakVelocity := js_mul peak (Fin 0.99),
             targetDistortionFactor := target2,
             currentDistortionFactor :=
               currentDistortionFactor st
                 + (target2 - currentDistortionFactor st) * distortionSmoothing cfg \<rparr>)"

text \<open>
  \<open>animate\<close>. The argument is the frame's timestamp, \<open>None\<close> for the call \<open>animate()\<close> that
  ends the script. \<open>lastTime\<close> is truthy when it is a number other than zero.
\<close>

definition animate :: "settings_t \<Rightarrow> real option \<Rightarrow> carousel \<Rightarrow> carousel" where
  "animate cfg time st =
     (let deltaTime =
            (case lastTime st of
               Some l \<Rightarrow> if l \<noteq> 0 then js_div (js_sub (js_of time) (Fin l)) (Fin 1000)
                         else Fin 0.016
             | None \<Rightarrow> Fin 0.016);
          prevPos = currentPosition st;
          st = scrollStep (st\<lparr> lastTime := time \<rparr>);
          st = st\<lparr> currentPosition :=
                     currentPosition st
                       + (targetPosition st - currentPosition st) * smoothing cfg \<rparr>;
          st = distortionStep cfg prevPos deltaTime st
      in st\<lparr> slides :=
               map (\<lambda>(i, sl). layoutSlide cfg (currentPosition st) (currentDistortionFactor st) i sl)
                 (enumerate 0 (slides st)) \<rparr>)"

section \<open>Events\<close>

datatype event =
    KeyDown string
  | Wheel real
  | TouchStart real
  | TouchMove real
  | TouchEnd
  | Resize
  | TimerFired
  | Frame "real option"

fun step :: "settings_t \<Rightarrow> carousel \<Rightarrow> event \<Rightarrow> carousel" where
  "step cfg st (KeyDown key) = keydown key st"
| "step cfg st (Wheel deltaY) = wheel cfg deltaY st"
| "step cfg st (TouchStart clientX) = touchstart clientX st"
| "step cfg st (TouchMove clientX) = touchmove cfg clientX st"
| "step cfg st TouchEnd = touchend cfg st"
| "step cfg st Resize = resize st"
| "step cfg st TimerFired = timerFired st"
| "step cfg st (Frame time) = animate cfg time st"

text \<open>The state after a sequence of events, oldest first.\<close>

definition run :: "settings_t \<Rightarrow> event list \<Rightarrow> carousel \<Rightarrow> carousel" where
  "run cfg evs st = foldl (step cfg) st evs"

text \<open>Every slide's \<open>currentX\<close> is inside the band of half the strip's width.\<close>

definition inBand :: "carousel \<Rightarrow> bool" where
  "inBand st \<longleftrightarrow> (\<forall>sl \<in> set (slides st). \<bar>currentX sl\<bar> \<le> totalWidth / 2)"

text \<open>Both distortion factors are in \<open>[0, 1]\<close>.\<close>

definition unitRange :: "carousel \<Rightarrow> bool" where
  "unitRange st \<longleftrightarrow>
     0 \<le> targetDistortionFactor st \<and> targetDistortionFactor st \<le> 1
   \<and> 0 \<le> currentDistortionFactor st \<and> currentDistortionFactor st \<le> 1"

section \<open>Basic facts\<close>

lemma slideUnit_val: "slideUnit = 3.1"
  by (simp add: slideUnit_def slideWidth_def gap_def)

lemma totalWidth_val: "totalWidth = 31"
  by (simp add: totalWidth_def slideCount_def slideWidth_def gap_def)

lemma updateCurve_fields [simp]:
  "currentX (updateCurve cfg sl w d) = currentX sl"
  "targetX (updateCurve cfg sl w d) = targetX sl"
  "position_x (updateCurve cfg m w d) = position_x m"
  "originalVertices (updateCurve cfg m w d) = originalVertices m"
  "userIndex (updateCurve cfg m w d) = userIndex m"
  by (simp_all add: updateCurve_def Let_def)

lemma scrollStep_fields [simp]:
  "slides (scrollStep st) = slides st"
  "currentPosition (scrollStep st) = currentPosition st"
  "isScrolling (scrollStep st) = isScrolling st"
  "targetDistortionFactor (scrollStep st) = targetDistortionFactor st"
  "currentDistortionFactor (scrollStep st) = currentDistortionFactor st"
  by (simp_all add: scrollStep_def Let_def)

lemma distortionStep_fields [simp]:
  "slides (distortionStep cfg p dt st) = slides st"
  "currentPosition (distortionStep cfg p dt st) = currentPosition st"
  "targetPosition (distortionStep cfg p dt st) = targetPosition st"
  "autoScrollSpeed (distortionStep cfg p dt st) = autoScrollSpeed st"
  "isScrolling (distortionStep cfg p dt st) = isScrolling st"
  by (simp_all add: distortionStep_def Let_def)

text \<open>What a frame does to the scroll variables, and that it keeps the number of slides.\<close>

lemma animate_fields:
  "isScrolling (animate cfg time st) = isScrolling st"
  "targetPosition (animate cfg time st) = targetPosition (scrollStep st)"
  "autoScrollSpeed (animate cfg time st) = autoScrollSpeed (scrollStep st)"
  "currentPosition (animate cfg time st) =
     currentPosition st + (targetPosition (scrollStep st) - currentPosition st) * smoothing cfg"
  "length (slides (animate cfg time st)) = length (slides st)"
  by (simp_all add: animate_def Let_def scrollStep_def)

text \<open>
  Slide \<open>i\<close> after a frame is the \<open>forEach\<close> body applied to slide \<open>i\<close> before it, with the
  frame's new \<open>currentPosition\<close> and \<open>currentDistortionFactor\<close>.
\<close>

lemma animate_slides_nth:
  assumes "i < length (slides st)"
  shows "slides (animate cfg time st) ! i =
         layoutSlide cfg (currentPosition (animate cfg time st))
           (currentDistortionFactor (animate cfg time st)) i (slides st ! i)"
  using assms by (simp add: animate_def Let_def nth_enumerate_eq)

lemma run_Nil [simp]: "run cfg [] st = st"
  by (simp add: run_def)

lemma run_Cons [simp]: "run cfg (e # evs) st = run cfg evs (step cfg st e)"
  by (simp add: run_def)

lemma run_snoc [simp]: "run cfg (evs @ [e]) st = step cfg (run cfg evs st) e"
  by (simp add: run_def)

lemma length_slides_step: "length (slides (step cfg st ev)) = length (slides st)"
  by (cases ev)
    (simp_all add: animate_fields keydown_def wheel_def touchstart_def touchmove_def
      touchend_def resize_def timerFired_def Let_def)

lemma length_slides_run: "length (slides (run cfg evs st)) = length (slides st)"
  by (induction evs arbitrary: st) (simp_all add: length_slides_step)

lemma length_slides_initial: "length (slides (initial geom)) = 10"
  by (simp add: initial_def initialSlides_def slideCount_def)

lemma initial_slide_nth:
  "i < 10 \<Longrightarrow> slides (initial geom) ! i = centreSlide (createSlide geom i)"
  by (simp add: initial_def initialSlides_def slideCount_def)

lemma first_frame_position: "currentPosition (animate settings None (initial geom)) = 0"
  by (simp add: animate_fields scrollStep_def initial_def)

section \<open>The remainder operator\<close>

lemma js_rem_nonneg:
  assumes "0 < b" "0 \<le> a"
  shows "0 \<le> js_rem a b \<and> js_rem a b < b"
proof -
  let ?n = "\<lfloor>a / b\<rfloor>"
  have lo: "of_int ?n \<le> a / b" and hi: "a / b < of_int ?n + 1" by linarith+
  have "b * of_int ?n \<le> b * (a / b)"
    using lo assms(1) by (intro mult_left_mono) simp_all
  then have l: "b * of_int ?n \<le> a" using assms(1) by simp
  have "b * (a / b) < b * (of_int ?n + 1)"
    using hi assms(1) by (intro mult_strict_left_mono) simp_all
  then have h: "a < b * (of_int ?n + 1)" using assms(1) by simp
  have "0 \<le> a / b" using assms by simp
  then show ?thesis using l h by (simp add: js_rem_def js_trunc_def algebra_simps)
qed

lemma js_rem_neg:
  assumes "0 < b" "a < 0"
  shows "- b < js_rem a b \<and> js_rem a b \<le> 0"
proof -
  let ?n = "\<lceil>a / b\<rceil>"
  have hi: "a / b \<le> of_int ?n" and lo: "of_int ?n - 1 < a / b" by linarith+
  have "b * (a / b) \<le> b * of_int ?n"
    using hi assms(1) by (intro mult_left_mono) simp_all
  then have h: "a \<le> b * of_int ?n" using assms(1) by simp
  have "b * (of_int ?n - 1) < b * (a / b)"
    using lo assms(1) by (intro mult_strict_left_mono) simp_all
  then have l: "b * (of_int ?n - 1) < a" using assms(1) by simp
  have "a / b < 0" using assms by (simp add: divide_neg_pos)
  then show ?thesis using l h by (simp add: js_rem_def js_trunc_def algebra_simps)
qed

lemma js_rem_bounds: "0 < b \<Longrightarrow> - b < js_rem a b \<and> js_rem a b < b"
  using js_rem_nonneg[of b a] js_rem_neg[of b a] by (cases "0 \<le> a") auto

text \<open>The double remainder of line 286 lands in \<open>[0, totalWidth)\<close>.\<close>

lemma positive_mod_range:
  "0 \<le> js_rem (js_rem a totalWidth + totalWidth) totalWidth
 \<and> js_rem (js_rem a totalWidth + totalWidth) totalWidth < totalWidth"
proof -
  have p: "0 < totalWidth" by (simp add: totalWidth_val)
  have "0 \<le> js_rem a totalWidth + totalWidth" using js_rem_bounds[OF p, of a] by simp
  then show ?thesis using js_rem_nonneg[OF p] by blast
qed

section \<open>Slide layout\<close>

text \<open>
  C1. For every slide index \<open>i\<close> (in particular \<open>0..9\<close>) and every \<open>currentPosition\<close>, the
  position computed by lines 285 to 290 (positive remainder, then \<open>totalWidth\<close> subtracted
  when the result exceeds \<open>totalWidth / 2\<close>) lies in the half-open interval
  \<open>(-totalWidth/2, totalWidth/2]\<close>.
\<close>

theorem wrapBaseX_range:
  "- (totalWidth / 2) < wrapBaseX i curPos \<and> wrapBaseX i curPos \<le> totalWidth / 2"
proof -
  have p: "0 < totalWidth" by (simp add: totalWidth_val)
  show ?thesis
    using positive_mod_range[of "real i * slideUnit - curPos"] p
    by (auto simp: wrapBaseX_def Let_def)
qed

text \<open>
  C2. In a frame where the wrapped position \<open>baseX\<close> of slide \<open>i\<close> differs from the slide's
  previous \<open>targetX\<close> by more than \<open>2 * slideWidth\<close>, the slide's \<open>currentX\<close> after the frame
  equals its \<open>targetX\<close>, and both equal \<open>baseX\<close>: the lerp step does not move it away.
\<close>

theorem wrap_snap:
  assumes "i < length (slides st)"
    and "\<bar>wrapBaseX i (currentPosition (animate cfg time st)) - targetX (slides st ! i)\<bar>
           > 2 * slideWidth"
  shows "currentX (slides (animate cfg time st) ! i) = targetX (slides (animate cfg time st) ! i)
       \<and> targetX (slides (animate cfg time st) ! i)
           = wrapBaseX i (currentPosition (animate cfg time st))"
  using assms(2) unfolding animate_slides_nth[OF assms(1)]
  by (simp add: layoutSlide_def Let_def mult.commute)

theorem wrap_snap_witness:
  "(0::nat) < length (slides (initial []))
 \<and> \<bar>wrapBaseX 0 (currentPosition (animate settings None (initial []))) 
      - targetX (slides (initial []) ! 0)\<bar> > 2 * slideWidth
 \<and> currentX (slides (animate settings None (initial [])) ! 0) = 0
 \<and> targetX (slides (animate settings None (initial [])) ! 0) = 0"
proof -
  have h1: "(0::nat) < length (slides (initial []))" by (simp add: length_slides_initial)
  have w: "wrapBaseX 0 0 = 0"
    by (simp add: wrapBaseX_def js_rem_def js_trunc_def totalWidth_val Let_def)
  have h2: "\<bar>wrapBaseX 0 (currentPosition (animate settings None (initial []))) 
      - targetX (slides (initial []) ! 0)\<bar> > 2 * slideWidth"
    by (simp add: first_frame_position w initial_slide_nth centreSlide_def createSlide_def
        totalWidth_val slideWidth_def Let_def)
  show ?thesis using wrap_snap[OF h1 h2] h1 h2 by (simp add: first_frame_position w)
qed

section \<open>Mesh distortion\<close>

lemma curveZ_zero: "curveZ cfg worldX 0 x y = 0"
  by (simp add: curveZ_def Let_def)

lemma setVertexZ_length [simp]: "length (setVertexZ cfg orig w d i arr) = length arr"
  by (simp add: setVertexZ_def Let_def)

lemma setVertexZ_nth:
  "setVertexZ cfg orig w d i arr ! k =
     (if k = i * 3 + 2 \<and> k < length arr
      then curveZ cfg w d (orig ! (i * 3)) (orig ! (i * 3 + 1)) else arr ! k)"
  by (cases "i * 3 + 2 < length arr")
    (auto simp: setVertexZ_def Let_def nth_list_update list_update_beyond)

lemma fold_setVertexZ_length [simp]:
  "length (fold (setVertexZ cfg orig w d) is arr) = length arr"
  by (induction "is" arbitrary: arr) simp_all

text \<open>After the loop the Z component of vertex \<open>i\<close> is the value computed for vertex \<open>i\<close>.\<close>

lemma fold_setVertexZ_z:
  assumes "n * 3 \<le> length arr" "i < n"
  shows "fold (setVertexZ cfg orig w d) [0..<n] arr ! (i * 3 + 2)
         = curveZ cfg w d (orig ! (i * 3)) (orig ! (i * 3 + 1))"
  using assms
proof (induction n)
  case 0
  then show ?case by simp
next
  case (Suc n)
  have le: "n * 3 \<le> length arr" using Suc.prems by simp
  show ?case
  proof (cases "i = n")
    case True
    then show ?thesis using Suc.prems by (simp add: setVertexZ_nth)
  next
    case False
    then have "i < n" using Suc.prems by simp
    then show ?thesis using Suc.IH[OF le] False by (simp add: setVertexZ_nth)
  qed
qed

text \<open>The loop writes nothing but Z components of the first \<open>n\<close> vertices.\<close>

lemma fold_setVertexZ_other:
  assumes "k mod 3 \<noteq> 2 \<or> n * 3 \<le> k"
  shows "fold (setVertexZ cfg orig w d) [0..<n] arr ! k = arr ! k"
  using assms
proof (induction n)
  case 0
  then show ?case by simp
next
  case (Suc n)
  have "(n * 3 + 2) mod 3 = 2" by presburger
  then have ne: "k \<noteq> n * 3 + 2" using Suc.prems by auto
  have "k mod 3 \<noteq> 2 \<or> n * 3 \<le> k" using Suc.prems by auto
  then show ?case using Suc.IH ne by (simp add: setVertexZ_nth)
qed

lemma updateCurve_idem:
  "updateCurve cfg (updateCurve cfg m w d) w d = updateCurve cfg m w d"
proof -
  let ?f = "setVertexZ cfg (originalVertices m) w d"
  let ?n = "length (positionArray m) div 3"
  let ?a = "fold ?f [0..<?n] (positionArray m)"
  have "fold ?f [0..<?n] ?a = ?a"
  proof (rule nth_equalityI)
    show "length (fold ?f [0..<?n] ?a) = length ?a" by simp
  next
    fix k assume "k < length (fold ?f [0..<?n] ?a)"
    show "fold ?f [0..<?n] ?a ! k = ?a ! k"
    proof (cases "k mod 3 = 2 \<and> k < ?n * 3")
      case True
      then obtain i where i: "k = i * 3 + 2" "i < ?n"
        by (metis mod_div_decomp less_mult_imp_div_less)
      have le: "?n * 3 \<le> length (positionArray m)" by simp
      have le': "?n * 3 \<le> length ?a" by simp
      show ?thesis unfolding i(1)
        using fold_setVertexZ_z[OF le i(2)] fold_setVertexZ_z[OF le' i(2)] by simp
    next
      case False
      then have "k mod 3 \<noteq> 2 \<or> ?n * 3 \<le> k" by auto
      then show ?thesis by (simp add: fold_setVertexZ_other)
    qed
  qed
  then show ?thesis by (simp add: updateCurve_def Let_def)
qed

text \<open>
  C3. For every well-formed mesh and every world X, the curve update with distortion factor
  \<open>0\<close> sets the Z coordinate of every vertex to \<open>0\<close>. For any factor \<open>d\<close> the Z coordinate of
  vertex \<open>i\<close> is \<open>curveZ\<close> of the snapshot's \<open>x\<close> and \<open>y\<close>, the world X and \<open>d\<close>: it does not
  depend on the Z values present before. Applying the update a second time with the same
  arguments changes nothing.
\<close>

theorem updateCurve_flat_and_pure:
  assumes "wellFormed m" and "i < length (positionArray m) div 3"
  shows "positionArray (updateCurve cfg m worldX 0) ! (i * 3 + 2) = 0
       \<and> positionArray (updateCurve cfg m worldX d) ! (i * 3 + 2)
           = curveZ cfg worldX d (originalVertices m ! (i * 3)) (originalVertices m ! (i * 3 + 1))
       \<and> updateCurve cfg (updateCurve cfg m worldX d) worldX d = updateCurve cfg m worldX d"
proof -
  have le: "(length (positionArray m) div 3) * 3 \<le> length (positionArray m)" by simp
  show ?thesis
    using fold_setVertexZ_z[OF le assms(2)] updateCurve_idem
    by (simp add: updateCurve_def Let_def curveZ_zero)
qed

theorem updateCurve_flat_and_pure_witness:
  "wellFormed \<lparr> position_x = 1, userIndex = 0, originalVertices = [- 1, 0, 0],
                positionArray = [- 1, 0, 7] \<rparr>
 \<and> (0::nat) < length (positionArray \<lparr> position_x = 1, userIndex = 0,
                originalVertices = [- 1, 0, 0], positionArray = [- 1, 0, 7] \<rparr>) div 3
 \<and> positionArray (updateCurve settings \<lparr> position_x = 1, userIndex = 0,
                originalVertices = [- 1, 0, 0], positionArray = [- 1, 0, 7] \<rparr> 1 0) ! 2 = 0
 \<and> positionArray (updateCurve settings \<lparr> position_x = 1, userIndex = 0,
                originalVertices = [- 1, 0, 0], positionArray = [- 1, 0, 7] \<rparr> 1 (1 / 2)) ! 2
     = 1.25"
proof -
  let ?m = "\<lparr> position_x = 1, userIndex = 0, originalVertices = [- 1, 0, 0],
                positionArray = [- 1::real, 0, 7] \<rparr>"
  have h1: "wellFormed ?m" by (simp add: wellFormed_def)
  have h2: "(0::nat) < length (positionArray ?m) div 3" by simp
  have z: "curveZ settings 1 (1 / 2) (- 1) 0 = 1.25"
    by (simp add: curveZ_def Let_def settings_def)
  show ?thesis using updateCurve_flat_and_pure[OF h1 h2, of settings 1 "1 / 2"] h1 h2
    by (simp add: z numeral_2_eq_2)
qed

section \<open>Scroll position\<close>

lemma idle_frame:
  assumes "\<not> isScrolling st"
  shows "\<not> isScrolling (animate cfg time st)
       \<and> targetPosition (animate cfg time st) = targetPosition st
       \<and> targetPosition (animate cfg time st) - currentPosition (animate cfg time st)
           = (targetPosition st - currentPosition st) * (1 - smoothing cfg)"
  using assms by (simp add: animate_fields scrollStep_def algebra_simps)

lemma idle_frames:
  assumes "\<not> isScrolling st"
  shows "\<not> isScrolling (run cfg (map Frame stamps) st)
       \<and> targetPosition (run cfg (map Frame stamps) st) = targetPosition st
       \<and> targetPosition (run cfg (map Frame stamps) st)
           - currentPosition (run cfg (map Frame stamps) st)
           = (targetPosition st - currentPosition st) * (1 - smoothing cfg) ^ length stamps"
proof (induction stamps rule: rev_induct)
  case Nil
  show ?case using assms by simp
next
  case (snoc t ts)
  let ?s = "run cfg (map Frame ts) st"
  have idle: "\<not> isScrolling ?s" using snoc by simp
  have tp: "targetPosition ?s = targetPosition st"
    and er: "targetPosition ?s - currentPosition ?s
             = (targetPosition st - currentPosition st) * (1 - smoothing cfg) ^ length ts"
    using snoc by simp_all
  have f: "\<not> isScrolling (animate cfg t ?s)"
    "targetPosition (animate cfg t ?s) = targetPosition ?s"
    "targetPosition (animate cfg t ?s) - currentPosition (animate cfg t ?s)
       = (targetPosition ?s - currentPosition ?s) * (1 - smoothing cfg)"
    using idle_frame[OF idle, of cfg t] by simp_all
  have "targetPosition (animate cfg t ?s) - currentPosition (animate cfg t ?s)
          = (targetPosition st - currentPosition st) * (1 - smoothing cfg) ^ length (ts @ [t])"
    by (simp add: f(3) er)
  then show ?case unfolding map_append list.map run_snoc step.simps
    using f(1) f(2) tp by simp
qed

text \<open>
  C4. Starting from a state in which \<open>isScrolling\<close> is false, after \<open>k\<close> frames with no input
  in between \<open>targetPosition\<close> is unchanged and the error \<open>targetPosition - currentPosition\<close>
  is the initial error times \<open>0.9 ^ k\<close>, so its sign is the initial sign. For any settings the
  factor per frame is \<open>1 - smoothing\<close>, and when \<open>smoothing \<le> 1\<close> the error never takes the
  opposite sign.
\<close>

theorem idle_error_decay:
  assumes "\<not> isScrolling st"
  shows "targetPosition (run settings (map Frame stamps) st) = targetPosition st
       \<and> targetPosition (run settings (map Frame stamps) st)
           - currentPosition (run settings (map Frame stamps) st)
           = (targetPosition st - currentPosition st) * 0.9 ^ length stamps
       \<and> sgn (targetPosition (run settings (map Frame stamps) st)
           - currentPosition (run settings (map Frame stamps) st))
           = sgn (targetPosition st - currentPosition st)
       \<and> (smoothing cfg \<le> 1 \<longrightarrow>
            targetPosition (run cfg (map Frame stamps) st)
              - currentPosition (run cfg (map Frame stamps) st)
              = (targetPosition st - currentPosition st) * (1 - smoothing cfg) ^ length stamps
          \<and> 0 \<le> (targetPosition (run cfg (map Frame stamps) st)
                   - currentPosition (run cfg (map Frame stamps) st))
                 * (targetPosition st - currentPosition st))"
proof -
  let ?e = "targetPosition st - currentPosition st"
  have s: "1 - smoothing settings = 0.9" by (simp add: settings_def)
  have e: "targetPosition (run settings (map Frame stamps) st)
           - currentPosition (run settings (map Frame stamps) st) = ?e * 0.9 ^ length stamps"
    using idle_frames[OF assms, of settings stamps] s by simp
  have sg: "sgn (?e * 0.9 ^ length stamps) = sgn ?e"
    by (simp add: sgn_mult)
  have gen: "0 \<le> (?e * (1 - smoothing cfg) ^ length stamps) * ?e" if "smoothing cfg \<le> 1"
  proof -
    have "0 \<le> (1 - smoothing cfg) ^ length stamps" using that by simp
    moreover have "0 \<le> ?e * ?e" by simp
    ultimately have "0 \<le> (?e * ?e) * (1 - smoothing cfg) ^ length stamps"
      by (rule mult_nonneg_nonneg[rotated])
    then show ?thesis by (simp add: mult_ac)
  qed
  have tp: "targetPosition (run settings (map Frame stamps) st) = targetPosition st"
    using idle_frames[OF assms, of settings stamps] by simp
  have g: "targetPosition (run cfg (map Frame stamps) st)
              - currentPosition (run cfg (map Frame stamps) st)
              = ?e * (1 - smoothing cfg) ^ length stamps"
    using idle_frames[OF assms, of cfg stamps] by simp
  show ?thesis
    unfolding g e using tp sg gen by simp
qed

theorem idle_error_decay_witness:
  "\<not> isScrolling (keydown ''ArrowLeft'' (initial []))
 \<and> smoothing settings \<le> 1
 \<and> targetPosition (run settings (map Frame [None, Some 16]) (keydown ''ArrowLeft'' (initial [])))
     - currentPosition (run settings (map Frame [None, Some 16]) (keydown ''ArrowLeft'' (initial [])))
     = 2.511"
proof -
  have h1: "\<not> isScrolling (keydown ''ArrowLeft'' (initial []))"
    by (simp add: keydown_def initial_def)
  have h2: "smoothing settings \<le> 1" by (simp add: settings_def)
  have e0: "targetPosition (keydown ''ArrowLeft'' (initial []))
            - currentPosition (keydown ''ArrowLeft'' (initial [])) = 3.1"
    by (simp add: keydown_def initial_def slideUnit_val)
  show ?thesis
    using idle_error_decay[OF h1, of "[None, Some 16]" settings] h1 h2
    by (simp add: e0 power2_eq_square)
qed

text \<open>
  C7. In a frame where \<open>isScrolling\<close> is true, \<open>autoScrollSpeed\<close> is added to
  \<open>targetPosition\<close>, then \<open>autoScrollSpeed\<close> is multiplied by
  \<open>max(0.92, 0.97 - |autoScrollSpeed| * 0.5)\<close> and set to \<open>0\<close> if its absolute value is then
  below \<open>0.001\<close>. In a frame where \<open>isScrolling\<close> is false both are unchanged.
\<close>

theorem scroll_integrator:
  "(isScrolling st \<longrightarrow>
      targetPosition (animate cfg time st) = targetPosition st + autoScrollSpeed st
    \<and> autoScrollSpeed (animate cfg time st)
        = (let v = autoScrollSpeed st * max 0.92 (0.97 - \<bar>autoScrollSpeed st\<bar> * 0.5)
           in if \<bar>v\<bar> < 0.001 then 0 else v))
 \<and> (\<not> isScrolling st \<longrightarrow>
      targetPosition (animate cfg time st) = targetPosition st
    \<and> autoScrollSpeed (animate cfg time st) = autoScrollSpeed st)"
  by (simp add: animate_fields scrollStep_def Let_def)

theorem scroll_integrator_witness:
  "isScrolling (wheel settings 100 (initial []))
 \<and> targetPosition (animate settings (Some 16) (wheel settings 100 (initial []))) = - 0.95
 \<and> autoScrollSpeed (animate settings (Some 16) (wheel settings 100 (initial []))) = 0.04725
 \<and> \<not> isScrolling (initial [])
 \<and> targetPosition (animate settings (Some 16) (initial [])) = 0
 \<and> autoScrollSpeed (animate settings (Some 16) (initial [])) = 0"
proof -
  let ?a = "wheel settings 100 (initial [])"
  have a: "isScrolling ?a" "targetPosition ?a = - 1" "autoScrollSpeed ?a = 0.05"
    by (simp_all add: wheel_def Let_def initial_def settings_def)
  have b: "\<not> isScrolling (initial [])" "targetPosition (initial []) = 0"
    "autoScrollSpeed (initial []) = 0"
    by (simp_all add: initial_def)
  show ?thesis
    using scroll_integrator[of ?a settings "Some 16"] scroll_integrator[of "initial []" settings "Some 16"]
    by (simp add: a b Let_def)
qed

section \<open>Input handlers\<close>

text \<open>
  C5. A wheel event with vertical delta \<open>deltaY\<close> adds \<open>- deltaY * 0.01\<close> to
  \<open>targetPosition\<close>, raises \<open>targetDistortionFactor\<close> by \<open>|deltaY| * 0.001\<close> capped at \<open>1.0\<close>,
  sets \<open>isScrolling\<close>, and sets \<open>autoScrollSpeed\<close> to
  \<open>min(|deltaY| * 0.0005, 0.05) * sign(deltaY)\<close>. With \<open>deltaY = 100\<close> the target position
  changes by \<open>-1.0\<close> and \<open>autoScrollSpeed\<close> becomes \<open>0.05\<close>.
\<close>

theorem wheel_effect:
  "targetPosition (wheel settings deltaY st) = targetPosition st + - deltaY * 0.01
 \<and> targetDistortionFactor (wheel settings deltaY st)
     = min 1.0 (targetDistortionFactor st + \<bar>deltaY\<bar> * 0.001)
 \<and> isScrolling (wheel settings deltaY st)
 \<and> autoScrollSpeed (wheel settings deltaY st) = min (\<bar>deltaY\<bar> * 0.0005) 0.05 * sgn deltaY
 \<and> targetPosition (wheel settings 100 st) = targetPosition st - 1.0
 \<and> autoScrollSpeed (wheel settings 100 st) = 0.05"
  by (simp add: wheel_def settings_def Let_def)

text \<open>
  C6. On touchend, with \<open>velocity = (touchLastX - touchStartX) * 0.005\<close>: if
  \<open>|velocity| > 0.5\<close> then \<open>autoScrollSpeed\<close> becomes \<open>- velocity * 2 * 0.05\<close>,
  \<open>targetDistortionFactor\<close> becomes \<open>min(1, |velocity| * 3 * 0.15)\<close> and \<open>isScrolling\<close> becomes
  true; if \<open>|velocity| \<le> 0.5\<close> none of the three changes. With \<open>touchStartX = 0\<close> and
  \<open>touchLastX = 200\<close> the velocity is \<open>1.0\<close> and \<open>autoScrollSpeed\<close> becomes \<open>-0.1\<close>.
\<close>

theorem touchend_effect:
  "(\<bar>(touchLastX st - touchStartX st) * 0.005\<bar> > 0.5 \<longrightarrow>
      autoScrollSpeed (touchend settings st)
        = - ((touchLastX st - touchStartX st) * 0.005) * 2 * 0.05
    \<and> targetDistortionFactor (touchend settings st)
        = min 1 (\<bar>(touchLastX st - touchStartX st) * 0.005\<bar> * 3 * 0.15)
    \<and> isScrolling (touchend settings st))
 \<and> (\<bar>(touchLastX st - touchStartX st) * 0.005\<bar> \<le> 0.5 \<longrightarrow>
      autoScrollSpeed (touchend settings st) = autoScrollSpeed st
    \<and> targetDistortionFactor (touchend settings st) = targetDistortionFactor st
    \<and> isScrolling (touchend settings st) = isScrolling st)
 \<and> (touchStartX st = 0 \<and> touchLastX st = 200 \<longrightarrow>
      (touchLastX st - touchStartX st) * 0.005 = 1.0
    \<and> autoScrollSpeed (touchend settings st) = - 0.1)"
  by (simp add: touchend_def settings_def Let_def)

theorem touchend_effect_witness:
  "\<bar>(touchLastX (touchmove settings 200 (touchstart 0 (initial [])))
       - touchStartX (touchmove settings 200 (touchstart 0 (initial [])))) * 0.005\<bar> > 0.5
 \<and> autoScrollSpeed (touchend settings (touchmove settings 200 (touchstart 0 (initial [])))) = - 0.1
 \<and> isScrolling (touchend settings (touchmove settings 200 (touchstart 0 (initial []))))
 \<and> \<bar>(touchLastX (touchmove settings 50 (touchstart 0 (initial [])))
       - touchStartX (touchmove settings 50 (touchstart 0 (initial [])))) * 0.005\<bar> \<le> 0.5
 \<and> autoScrollSpeed (touchend settings (touchmove settings 50 (touchstart 0 (initial [])))) = 0
 \<and> touchStartX (touchmove settings 200 (touchstart 0 (initial []))) = 0
 \<and> touchLastX (touchmove settings 200 (touchstart 0 (initial []))) = 200"
proof -
  let ?a = "touchmove settings 200 (touchstart 0 (initial []))"
  let ?b = "touchmove settings 50 (touchstart 0 (initial []))"
  have a: "touchStartX ?a = 0" "touchLastX ?a = 200"
    by (simp_all add: touchmove_def touchstart_def Let_def)
  have b: "touchStartX ?b = 0" "touchLastX ?b = 50" "autoScrollSpeed ?b = 0"
    by (simp_all add: touchmove_def touchstart_def Let_def initial_def)
  show ?thesis using touchend_effect[of ?a] touchend_effect[of ?b]
    by (simp add: a b)
qed

section \<open>Initial layout\<close>

text \<open>
  C9. With ten slides, \<open>slideWidth = 3.0\<close> and \<open>gap = 0.1\<close> (slide unit \<open>3.1\<close>, total width
  \<open>31.0\<close>), after creation and the centring pass slide \<open>i\<close> has \<open>position.x\<close>, \<open>targetX\<close> and
  \<open>currentX\<close> equal to \<open>i * 3.1 - 15.5\<close>, for every \<open>i\<close> in \<open>0..9\<close>.
\<close>

theorem initial_positions:
  "slideUnit = 3.1 \<and> totalWidth = 31.0
 \<and> slides (initial geom) = initialSlides geom
 \<and> length (initialSlides geom) = 10
 \<and> map position_x (initialSlides geom) = map (\<lambda>i. real i * 3.1 - 15.5) [0..<10]
 \<and> map targetX (initialSlides geom) = map (\<lambda>i. real i * 3.1 - 15.5) [0..<10]
 \<and> map currentX (initialSlides geom) = map (\<lambda>i. real i * 3.1 - 15.5) [0..<10]"
  by (simp add: initialSlides_def centreSlide_def createSlide_def Let_def slideCount_def
      totalWidth_val slideUnit_val slideWidth_def gap_def initial_def comp_def)

section \<open>No slide is culled\<close>

text \<open>The lerp toward a wrapped position stays inside the band.\<close>

lemma lerp_in_band:
  fixes b c h :: real
  assumes "\<bar>b\<bar> \<le> h" "\<bar>c\<bar> \<le> h"
  shows "\<bar>c + (b - c) * slideLerp settings\<bar> \<le> h"
proof -
  have "c + (b - c) * slideLerp settings = c + (b - c) * (3 / 40)"
    by (simp add: settings_def)
  then show ?thesis using assms by argo
qed

lemma wrapBaseX_abs: "\<bar>wrapBaseX i curPos\<bar> \<le> totalWidth / 2"
proof -
  have p: "0 < totalWidth" by (simp add: totalWidth_val)
  have "- (totalWidth / 2) < wrapBaseX i curPos \<and> wrapBaseX i curPos \<le> totalWidth / 2"
    using positive_mod_range[of "real i * slideUnit - curPos"] p
    by (auto simp: wrapBaseX_def Let_def)
  then show ?thesis by linarith
qed

lemma layoutSlide_currentX:
  assumes "\<bar>currentX sl\<bar> \<le> totalWidth / 2"
  shows "\<bar>currentX (layoutSlide settings curPos d i sl)\<bar> \<le> totalWidth / 2"
  using lerp_in_band[OF wrapBaseX_abs wrapBaseX_abs, of i curPos i curPos]
    lerp_in_band[OF wrapBaseX_abs assms, of i curPos]
  by (simp add: layoutSlide_def Let_def)

lemma inBand_initial: "inBand (initial geom)"
proof -
  have "\<bar>real i * 31 / 10 - 31 / 2\<bar> * 2 \<le> 31" if "i < 10" for i :: nat
  proof -
    have "real i \<le> 9" using that by simp
    moreover have "0 \<le> real i" by simp
    ultimately show ?thesis by argo
  qed
  then show ?thesis
    by (simp add: inBand_def initial_def initialSlides_def centreSlide_def createSlide_def
        Let_def slideCount_def totalWidth_val slideWidth_def gap_def)
qed

lemma inBand_animate:
  assumes "inBand st"
  shows "inBand (animate settings time st)"
  unfolding inBand_def
proof
  fix sl assume "sl \<in> set (slides (animate settings time st))"
  then obtain i where i: "i < length (slides st)" "sl = slides (animate settings time st) ! i"
    by (metis in_set_conv_nth animate_fields(5))
  have "\<bar>currentX (slides st ! i)\<bar> \<le> totalWidth / 2"
    using assms i(1) by (simp add: inBand_def)
  then show "\<bar>currentX sl\<bar> \<le> totalWidth / 2"
    unfolding i(2) animate_slides_nth[OF i(1)] by (rule layoutSlide_currentX)
qed

lemma inBand_step:
  assumes "inBand st"
  shows "inBand (step settings st ev)"
proof (cases ev)
  case (Frame time)
  then show ?thesis using inBand_animate[OF assms] by simp
qed (use assms in \<open>simp_all add: inBand_def keydown_def wheel_def touchstart_def touchmove_def
        touchend_def resize_def timerFired_def Let_def\<close>)

lemma inBand_run: "inBand st \<Longrightarrow> inBand (run settings evs st)"
  by (induction evs arbitrary: st) (simp_all add: inBand_step)

text \<open>
  C10. In every state reached from the initial one by any sequence of events, every slide
  \<open>i\<close> in \<open>0..9\<close> has \<open>|currentX| \<le> totalWidth / 2\<close>, hence
  \<open>|currentX| < 1.5 * (totalWidth / 2 + slideWidth)\<close>: the proximity test of the next frame
  passes for every slide, so the frame sets the slide's \<open>position.x\<close> to its \<open>currentX\<close> and
  deforms its mesh at that position.
\<close>

theorem never_culled:
  assumes "i < 10"
  shows "\<bar>currentX (slides (run settings evs (initial geom)) ! i)\<bar> \<le> totalWidth / 2
       \<and> \<bar>currentX (slides (run settings evs (initial geom)) ! i)\<bar>
            < (totalWidth / 2 + slideWidth) * 1.5
       \<and> \<bar>currentX (slides (animate settings time (run settings evs (initial geom))) ! i)\<bar>
            < (totalWidth / 2 + slideWidth) * 1.5
       \<and> position_x (slides (animate settings time (run settings evs (initial geom))) ! i)
            = currentX (slides (animate settings time (run settings evs (initial geom))) ! i)
       \<and> positionArray (slides (animate settings time (run settings evs (initial geom))) ! i)
            = positionArray
                (updateCurve settings (slides (run settings evs (initial geom)) ! i)
                   (currentX (slides (animate settings time (run settings evs (initial geom))) ! i))
                   (currentDistortionFactor
                      (animate settings time (run settings evs (initial geom)))))"
proof -
  let ?st = "run settings evs (initial geom)"
  let ?st' = "animate settings time ?st"
  have len: "i < length (slides ?st)"
    using assms by (simp add: length_slides_run length_slides_initial)
  have inv: "inBand ?st" by (rule inBand_run[OF inBand_initial])
  have c: "\<bar>currentX (slides ?st ! i)\<bar> \<le> totalWidth / 2"
    using inv len by (simp add: inBand_def)
  have "inBand ?st'" by (rule inBand_animate[OF inv])
  then have c': "\<bar>currentX (slides ?st' ! i)\<bar> \<le> totalWidth / 2"
    using len by (simp add: inBand_def animate_fields)
  have lt: "totalWidth / 2 < (totalWidth / 2 + slideWidth) * 1.5"
    by (simp add: totalWidth_val slideWidth_def)
  have test: "\<bar>currentX (slides ?st' ! i)\<bar> < (totalWidth / 2 + slideWidth) * 1.5"
    using c' lt by linarith
  have "position_x (slides ?st' ! i) = currentX (slides ?st' ! i)
      \<and> positionArray (slides ?st' ! i)
          = positionArray (updateCurve settings (slides ?st ! i) (currentX (slides ?st' ! i))
                (currentDistortionFactor ?st'))"
    using test unfolding animate_slides_nth[OF len]
    by (simp add: layoutSlide_def Let_def updateCurve_def split: if_splits)
  then show ?thesis using c test lt by simp
qed

theorem never_culled_witness:
  "(3::nat) < 10
 \<and> \<bar>currentX (slides (run settings [Frame None, Wheel 100, Frame (Some 16)] (initial [])) ! 3)\<bar>
      \<le> 15.5
 \<and> position_x (slides (animate settings (Some 32)
        (run settings [Frame None, Wheel 100, Frame (Some 16)] (initial []))) ! 3)
    = currentX (slides (animate settings (Some 32)
        (run settings [Frame None, Wheel 100, Frame (Some 16)] (initial []))) ! 3)"
proof -
  have h: "(3::nat) < 10" by simp
  show ?thesis
    using never_culled[OF h, of "[Frame None, Wheel 100, Frame (Some 16)]" "[]" "Some 32"] h
    by (simp add: totalWidth_val)
qed

section \<open>Distortion factors\<close>

text \<open>
  Where \<open>animate\<close> stores the \<open>Math.max\<close> into \<open>targetDistortionFactor\<close> the velocity exceeds
  \<open>0.05\<close>, so the value stored is finite.
\<close>

lemma movementDistortion_finite:
  assumes "js_gt currentVelocity (Fin 0.05)"
  shows "\<exists>m. js_max (Fin t) (js_min (Fin 1.0) (js_mul currentVelocity (Fin 0.1))) = Fin (max t m)
           \<and> 0 \<le> m \<and> m \<le> 1"
proof (cases currentVelocity)
  case (Fin v)
  then have "0.05 < v" using assms by (simp add: js_gt_def)
  then have "js_max (Fin t) (js_min (Fin 1.0) (js_mul currentVelocity (Fin 0.1)))
             = Fin (max t (min 1 (v * 0.1)))"
    using Fin by (auto simp: max_def min_def)
  moreover have "0 \<le> min 1 (v * 0.1)" "min 1 (v * 0.1) \<le> 1" using \<open>0.05 < v\<close> by auto
  ultimately show ?thesis by blast
next
  case PInf
  then have "js_max (Fin t) (js_min (Fin 1.0) (js_mul currentVelocity (Fin 0.1))) = Fin (max t 1)"
    by (auto simp: max_def)
  then show ?thesis by (intro exI[of _ 1]) simp
next
  case NInf
  then show ?thesis using assms by (simp add: js_gt_def)
next
  case NaN
  then show ?thesis using assms by (simp add: js_gt_def)
qed

lemma distortionStep_unitRange:
  assumes "unitRange st"
  shows "unitRange (distortionStep settings prevPos deltaTime st)"
proof -
  define cv where "cv = js_div (Fin \<bar>currentPosition st - prevPos\<bar>) deltaTime"
  define t1 where "t1 =
            (if js_gt cv (Fin 0.05)
             then js_fin (js_max (Fin (targetDistortionFactor st)) (js_min (Fin 1.0) (js_mul cv (Fin 0.1))))
             else targetDistortionFactor st)"
  have t1: "0 \<le> t1 \<and> t1 \<le> 1"
  proof (cases "js_gt cv (Fin 0.05)")
    case True
    from movementDistortion_finite[OF True, of "targetDistortionFactor st"]
    obtain m where "js_max (Fin (targetDistortionFactor st)) (js_min (Fin 1.0) (js_mul cv (Fin 0.1)))
        = Fin (max (targetDistortionFactor st) m)" "0 \<le> m" "m \<le> 1" by blast
    then show ?thesis using True assms by (simp add: t1_def unitRange_def)
  next
    case False
    then show ?thesis using assms by (simp add: t1_def unitRange_def)
  qed
  have dec: "0 \<le> t1 * k \<and> t1 * k \<le> 1" if "0 \<le> k" "k \<le> 1" for k
    using t1 that by (simp add: mult_le_one)
  have d1: "0 \<le> t1 * distortionDecay settings \<and> t1 * distortionDecay settings \<le> 1"
    using dec[of "distortionDecay settings"] by (simp add: settings_def)
  have d2: "0 \<le> t1 * (distortionDecay settings * 0.9) \<and> t1 * (distortionDecay settings * 0.9) \<le> 1"
    using dec[of "distortionDecay settings * 0.9"] by (simp add: settings_def)
  have sm: "0 \<le> c + (t - c) * distortionSmoothing settings
          \<and> c + (t - c) * distortionSmoothing settings \<le> 1"
    if "0 \<le> t" "t \<le> 1" "0 \<le> c" "c \<le> 1" for t c :: real
  proof -
    have "c + (t - c) * distortionSmoothing settings = c + (t - c) * (3 / 40)"
      by (simp add: settings_def)
    then show ?thesis using that by argo
  qed
  have c: "0 \<le> currentDistortionFactor st" "currentDistortionFactor st \<le> 1"
    using assms by (simp_all add: unitRange_def)
  show ?thesis
    unfolding unitRange_def distortionStep_def Let_def cv_def[symmetric] 
    using t1 d1 d2 sm[OF _ _ c] unfolding t1_def
    by (simp del: js_max.simps js_min.simps js_mul.simps js_div.simps js_lt.simps js_fin.simps)
qed

lemma animate_distortion:
  "targetDistortionFactor (animate cfg time st)
     = targetDistortionFactor (distortionStep cfg (currentPosition st)
         (case lastTime st of
               Some l \<Rightarrow> if l \<noteq> 0 then js_div (js_sub (js_of time) (Fin l)) (Fin 1000)
                         else Fin 0.016
             | None \<Rightarrow> Fin 0.016)
         (scrollStep (st\<lparr> lastTime := time \<rparr>)
            \<lparr> currentPosition := currentPosition st
                + (targetPosition (scrollStep st) - currentPosition st) * smoothing cfg \<rparr>))"
  "currentDistortionFactor (animate cfg time st)
     = currentDistortionFactor (distortionStep cfg (currentPosition st)
         (case lastTime st of
               Some l \<Rightarrow> if l \<noteq> 0 then js_div (js_sub (js_of time) (Fin l)) (Fin 1000)
                         else Fin 0.016
             | None \<Rightarrow> Fin 0.016)
         (scrollStep (st\<lparr> lastTime := time \<rparr>)
            \<lparr> currentPosition := currentPosition st
                + (targetPosition (scrollStep st) - currentPosition st) * smoothing cfg \<rparr>))"
  by (simp_all add: animate_def Let_def scrollStep_def)

lemma animate_unitRange:
  assumes "unitRange st"
  shows "unitRange (animate settings time st)"
proof -
  let ?s = "scrollStep (st\<lparr> lastTime := time \<rparr>)
            \<lparr> currentPosition := currentPosition st
                + (targetPosition (scrollStep st) - currentPosition st) * smoothing settings \<rparr>"
  have "unitRange ?s" using assms by (simp add: unitRange_def)
  from distortionStep_unitRange[OF this]
  show ?thesis unfolding unitRange_def animate_distortion .
qed

text \<open>Every handler other than touchmove, and every frame, keeps both factors in \<open>[0, 1]\<close>.\<close>

lemma sibling_paths_unitRange:
  assumes "unitRange st" and "\<forall>x. ev \<noteq> TouchMove x"
  shows "unitRange (step settings st ev)"
proof (cases ev)
  case (Frame time)
  then show ?thesis using animate_unitRange[OF assms(1)] by simp
next
  case (TouchMove x)
  then show ?thesis using assms(2) by simp
next
  case TouchEnd
  then show ?thesis using assms(1)
    by (simp add: unitRange_def touchend_def Let_def settings_def)
qed (use assms(1) in \<open>simp_all add: unitRange_def keydown_def wheel_def touchstart_def
        resize_def timerFired_def Let_def\<close>)

lemma first_frame:
  "animate settings None (initial geom) =
     (initial geom)\<lparr> lastTime := None,
        slides := slides (animate settings None (initial geom)) \<rparr>"
  by (simp add: animate_def Let_def scrollStep_def distortionStep_def initial_def settings_def
      js_gt_def)

lemma two_touchmoves:
  "touchmove settings 0 (touchmove settings 100 (touchstart 0 (animate settings None (initial geom))))
   = (initial geom)\<lparr> lastTime := None,
        slides := slides (animate settings None (initial geom)),
        touchLastX := 0, targetDistortionFactor := - 4, isScrolling := True \<rparr>"
  by (subst first_frame) (simp add: touchstart_def touchmove_def Let_def initial_def settings_def)

lemma idle_frame_after_touch:
  "currentDistortionFactor (animate settings (Some 16)
     ((initial geom)\<lparr> lastTime := None, slides := sls, touchLastX := 0,
        targetDistortionFactor := - 4, isScrolling := True \<rparr>)) = - 0.2565"
  unfolding animate_distortion
  apply (simp add: initial_def scrollStep_def)
  apply (simp add: distortionStep_def Let_def js_gt_def)
  apply (simp add: settings_def)
  done

text \<open>
  C8. Starting from the initial state, \<open>targetDistortionFactor\<close> and
  \<open>currentDistortionFactor\<close> should stay in \<open>[0, 1]\<close> after every handler and every frame.
  The touchmove handler subtracts the touch strength and caps the result at \<open>1\<close> only: after
  the script's first frame, a touchstart at \<open>0\<close> (both factors still in range) and a touchmove
  to \<open>100\<close>, the target factor is \<open>-2\<close>; a touchmove back to \<open>0\<close> and one frame later the
  current factor is \<open>-0.2565\<close>.
\<close>

theorem touchmove_negative_distortion:
  "unitRange (run settings [Frame None, TouchStart 0] (initial geom))
 \<and> targetDistortionFactor
     (run settings [Frame None, TouchStart 0, TouchMove 100] (initial geom)) = - 2
 \<and> currentDistortionFactor
     (run settings [Frame None, TouchStart 0, TouchMove 100, TouchMove 0, Frame (Some 16)]
        (initial geom)) = - 0.2565"
proof -
  have u: "unitRange (touchstart 0 (animate settings None (initial geom)))"
    by (subst first_frame) (simp add: unitRange_def touchstart_def initial_def)
  have t: "targetDistortionFactor
     (touchmove settings 100 (touchstart 0 (animate settings None (initial geom)))) = - 2"
    by (subst first_frame) (simp add: touchstart_def touchmove_def Let_def initial_def)
  have c: "currentDistortionFactor (animate settings (Some 16)
      (touchmove settings 0 (touchmove settings 100
         (touchstart 0 (animate settings None (initial geom)))))) = - 0.2565"
    unfolding two_touchmoves by (rule idle_frame_after_touch)
  show ?thesis using u t c by simp
qed

end
